theory Spec2Isabelle
  imports Main
begin

section \<open>Data model\<close>

text \<open>
  The page \<^verbatim>\<open>src/pages/Discover.tsx\<close> works on three tables of a remote store:
  \<^verbatim>\<open>services\<close>, \<^verbatim>\<open>profiles\<close> and \<^verbatim>\<open>bookings\<close>. Rows are records whose fields carry the
  column names of the source. The column \<^verbatim>\<open>id\<close> is written \<open>id'\<close>, since \<open>id\<close> is the
  identity function of HOL. Field names shared by two tables are qualified with the
  record name where needed (\<open>booking.provider_id\<close>, \<open>profile.id'\<close>).
\<close>

text \<open>A row of \<^verbatim>\<open>bookings\<close>, with the five columns the page writes on insertion.\<close>

record booking =
  service_id :: string
  customer_id :: string
  provider_id :: string
  status :: string
  booking_date :: string

text \<open>A row of \<^verbatim>\<open>profiles\<close>, as selected by \<^verbatim>\<open>select('id, full_name')\<close>.\<close>

record profile =
  id' :: string
  full_name :: string

text \<open>
  The columns of \<^verbatim>\<open>services\<close> that the listing query selects. A stored service is such a
  row together with the column \<^verbatim>\<open>is_active\<close>, which is filtered on but not selected.
  The type of a price is left open, since the page only shows prices: a stored row
  carries the price as the table holds it, and a row handed to the page carries the
  JavaScript number that the client decodes from it, which need not be the same value
  (see \<open>number_of\<close> below).
\<close>

record 'p service_row =
  id' :: string
  title :: string
  description :: "string option"
  price :: 'p
  category :: string
  city :: string
  provider_id :: string

record 'p service = "'p service_row" +
  is_active :: bool

text \<open>
  The object \<^verbatim>\<open>{ ...service, provider: ... }\<close> built by the listing query: the selected
  columns and the provider found for them, \<open>None\<close> standing for \<^verbatim>\<open>undefined\<close>.
\<close>

record 'p listing_view = "'p service_row" +
  provider :: "profile option"

definition with_provider :: "'p service_row \<Rightarrow> profile option \<Rightarrow> 'p listing_view" where
  "with_provider s p = service_row.extend s (listing_view.fields p)"

text \<open>The two pieces of component state set by \<^verbatim>\<open>useState\<close>; \<open>None\<close> is \<^verbatim>\<open>null\<close>.\<close>

record view_state =
  selectedCategory :: "string option"
  selectedCity :: "string option"

definition unfiltered :: view_state where
  "unfiltered = \<lparr>selectedCategory = None, selectedCity = None\<rparr>"

section \<open>The store\<close>

text \<open>
  Every call of the store client resolves to a pair \<^verbatim>\<open>{ data, error }\<close> of which one is
  null; this is a value of \<open>error + rows\<close>. Whether a call fails is decided by the
  environment: \<open>failing\<close> holds the kinds of call that currently fail. The world also
  carries the clock read by \<^verbatim>\<open>new Date().toISOString()\<close> and the trace of the calls made
  so far, oldest first. Two more parts of the environment are functions that the page
  cannot see into: \<open>number_of\<close> is the decoding of a stored price (of type \<open>'s\<close>) into the
  number (of type \<open>'n\<close>) that the client hands over, and \<open>lower_text\<close> is the lower-casing
  of a text by the database, which depends on its locale.
\<close>

datatype table_op = ReadServices | ReadProfiles | ReadBookings | InsertBookings

datatype error = StoreError table_op | NotAuthenticated

datatype services_filter = EqIsActive bool | IlikeCategory string | EqCity string

datatype event =
    SelectServices "services_filter list"
  | SelectProfilesIn "string list"
  | SelectBookings string string "string list"
  | InsertBooking booking
  | InvalidateQueries string

record ('s, 'n) world =
  services :: "'s service list"
  profiles :: "profile list"
  bookings :: "booking list"
  failing :: "table_op set"
  now :: string
  trace :: "event list"
  number_of :: "'s \<Rightarrow> 'n"
  lower_text :: "string \<Rightarrow> string"

subsection \<open>Case-insensitive pattern matching\<close>

text \<open>
  The filter \<^verbatim>\<open>ilike\<close> is the case-insensitive \<^verbatim>\<open>LIKE\<close> of the database. The REST layer
  in front of the database first reads \<^verbatim>\<open>*\<close> in the pattern as \<^verbatim>\<open>%\<close>. The database then
  lower-cases the pattern and the text by its locale and matches the two: in the
  pattern, \<^verbatim>\<open>%\<close> stands for any run of characters, \<^verbatim>\<open>_\<close> for any one character, and a
  backslash makes the next character literal. A pattern that ends in a lone backslash
  matches nothing here (the database refuses it once matching reaches that point, and
  the listing query turns the refusal into the empty list).
\<close>

fun like_match :: "string \<Rightarrow> string \<Rightarrow> bool" where
  "like_match [] t = (t = [])"
| "like_match (p # ps) [] = (p = CHR ''%'' \<and> like_match ps [])"
| "like_match (p # ps) (c # ts) =
     (if p = CHR ''%'' then like_match ps (c # ts) \<or> like_match (p # ps) ts
      else if p = CHR ''_'' then like_match ps ts
      else if p = CHR 0x5C then
        (case ps of [] \<Rightarrow> False | q # qs \<Rightarrow> q = c \<and> like_match qs ts)
      else p = c \<and> like_match ps ts)"

definition star2percent :: "string \<Rightarrow> string" where
  "star2percent = map (\<lambda>c. if c = CHR ''*'' then CHR ''%'' else c)"

definition ilike :: "(string \<Rightarrow> string) \<Rightarrow> string \<Rightarrow> string \<Rightarrow> bool" where
  "ilike lower_of pattern txt = like_match (lower_of (star2percent pattern)) (lower_of txt)"

subsection \<open>Reads and writes\<close>

fun satisfies :: "(string \<Rightarrow> string) \<Rightarrow> 's service \<Rightarrow> services_filter \<Rightarrow> bool" where
  "satisfies lower_of s (EqIsActive b) = (is_active s = b)"
| "satisfies lower_of s (IlikeCategory p) = ilike lower_of p (category s)"
| "satisfies lower_of s (EqCity c) = (city s = c)"

text \<open>The selected columns of a stored service, as the client hands them to the page.\<close>

definition deliver :: "('s \<Rightarrow> 'n) \<Rightarrow> 's service \<Rightarrow> 'n service_row" where
  "deliver decode s =
     \<lparr>service_row.id' = service_row.id' s, title = title s, description = description s,
      price = decode (price s), category = category s, city = city s,
      provider_id = service_row.provider_id s\<rparr>"

definition logged :: "event \<Rightarrow> ('s, 'n) world \<Rightarrow> ('s, 'n) world" where
  "logged e w = w\<lparr>trace := trace w @ [e]\<rparr>"

definition select_services ::
  "services_filter list \<Rightarrow> ('s, 'n) world \<Rightarrow> (error + 'n service_row list) \<times> ('s, 'n) world" where
  "select_services query w =
     (if ReadServices \<in> failing w then Inl (StoreError ReadServices)
      else Inr (map (deliver (number_of w))
                  (filter (\<lambda>s. list_all (satisfies (lower_text w) s) query) (services w))),
      logged (SelectServices query) w)"

definition select_profiles_in ::
  "string list \<Rightarrow> ('s, 'n) world \<Rightarrow> (error + profile list) \<times> ('s, 'n) world" where
  "select_profiles_in ids w =
     (if ReadProfiles \<in> failing w then Inl (StoreError ReadProfiles)
      else Inr (filter (\<lambda>p. profile.id' p \<in> set ids) (profiles w)),
      logged (SelectProfilesIn ids) w)"

definition select_bookings ::
  "string \<Rightarrow> string \<Rightarrow> string list \<Rightarrow> ('s, 'n) world
     \<Rightarrow> (error + booking list) \<times> ('s, 'n) world" where
  "select_bookings sid cid statuses w =
     (if ReadBookings \<in> failing w then Inl (StoreError ReadBookings)
      else Inr (filter (\<lambda>b. service_id b = sid \<and> customer_id b = cid \<and> status b \<in> set statuses)
                  (bookings w)),
      logged (SelectBookings sid cid statuses) w)"

text \<open>
  \<^verbatim>\<open>insert([row]).select()\<close> appends the row and answers with the rows inserted; a failing
  insertion leaves the table as it was.
\<close>

definition insert_booking ::
  "booking \<Rightarrow> ('s, 'n) world \<Rightarrow> (error + booking list) \<times> ('s, 'n) world" where
  "insert_booking b w =
     (if InsertBookings \<in> failing w
      then (Inl (StoreError InsertBookings), logged (InsertBooking b) w)
      else (Inr [b], logged (InsertBooking b) (w\<lparr>bookings := bookings w @ [b]\<rparr>)))"

section \<open>The listing query\<close>

text \<open>A JavaScript string is truthy when it is neither null nor empty.\<close>

fun truthy :: "string option \<Rightarrow> bool" where
  "truthy None = False"
| "truthy (Some s) = (s \<noteq> [])"

text \<open>The query built by lines 36 to 55: one filter always, two more on truthy selections.\<close>

definition services_query :: "view_state \<Rightarrow> services_filter list" where
  "services_query vs =
     [EqIsActive True]
     @ (case selectedCategory vs of
          Some c \<Rightarrow> if truthy (Some c) then [IlikeCategory c] else []
        | None \<Rightarrow> [])
     @ (case selectedCity vs of
          Some c \<Rightarrow> if truthy (Some c) then [EqCity c] else []
        | None \<Rightarrow> [])"

text \<open>
  The body of the \<^verbatim>\<open>try\<close> block of \<^verbatim>\<open>queryFn\<close>: \<open>Inl\<close> is a \<^verbatim>\<open>throw\<close>, \<open>Inr\<close> a
  \<^verbatim>\<open>return\<close>.
\<close>

definition queryFn_try ::
  "view_state \<Rightarrow> ('s, 'n) world \<Rightarrow> (error + 'n listing_view list) \<times> ('s, 'n) world" where
  "queryFn_try vs w =
     (case select_services (services_query vs) w of
        (Inl servicesError, w1) \<Rightarrow> (Inl servicesError, w1)
      | (Inr servicesData, w1) \<Rightarrow>
          if servicesData \<noteq> [] then
            (let providerIds = map service_row.provider_id servicesData in
             case select_profiles_in providerIds w1 of
               (Inl providersError, w2) \<Rightarrow> (Inl providersError, w2)
             | (Inr providersData, w2) \<Rightarrow>
                 (Inr (map (\<lambda>service. with_provider service
                              (find (\<lambda>p. profile.id' p = service_row.provider_id service)
                                 providersData))
                         servicesData),
                  w2))
          else (Inr [], w1))"

text \<open>
  \<^verbatim>\<open>queryFn\<close> itself: the \<^verbatim>\<open>catch\<close> block answers every thrown error with the empty
  list, so the promise never rejects and the result is never \<open>Inl\<close>.
\<close>

definition queryFn ::
  "view_state \<Rightarrow> ('s, 'n) world \<Rightarrow> (error + 'n listing_view list) \<times> ('s, 'n) world" where
  "queryFn vs w =
     (case queryFn_try vs w of
        (Inl err, w') \<Rightarrow> (Inr [], w')
      | (Inr views, w') \<Rightarrow> (Inr views, w'))"

definition handleCategoryClick :: "string \<Rightarrow> view_state \<Rightarrow> view_state" where
  "handleCategoryClick categoryName vs =
     vs\<lparr>selectedCategory := Some categoryName, selectedCity := None\<rparr>"

section \<open>Booking a service\<close>

text \<open>
  \<^verbatim>\<open>handleBookService\<close> returns nothing; what the caller learns is the toast shown.
  An outcome names the branch taken, and \<open>notification\<close> gives its toast.
  The signed-in user is given by its identifier, \<open>None\<close> when nobody is signed in.
\<close>

datatype reason = Unauthenticated | SelfBooking | AlreadyBooked

datatype outcome = Rejected reason | Booked "booking list" | BookingFailed error

record toast =
  toast_title :: string
  toast_description :: string
  destructive :: bool

fun notification :: "outcome \<Rightarrow> toast" where
  "notification (Rejected Unauthenticated) =
     \<lparr>toast_title = ''Error'', toast_description = ''Please login to book a service'',
      destructive = True\<rparr>"
| "notification (Rejected SelfBooking) =
     \<lparr>toast_title = ''Error'', toast_description = ''You cannot book your own service'',
      destructive = True\<rparr>"
| "notification (Rejected AlreadyBooked) =
     \<lparr>toast_title = ''Error'',
      toast_description = ''You already have an active booking for this service'',
      destructive = True\<rparr>"
| "notification (Booked data) =
     \<lparr>toast_title = ''Success'', toast_description = ''Booking request sent successfully'',
      destructive = False\<rparr>"
| "notification (BookingFailed e) =
     \<lparr>toast_title = ''Error'',
      toast_description = ''Failed to create booking. Please try again.'',
      destructive = True\<rparr>"

text \<open>The mutation function of \<^verbatim>\<open>createBooking\<close>: \<open>Inl\<close> is a \<^verbatim>\<open>throw\<close>.\<close>

definition mutationFn ::
  "string option \<Rightarrow> string \<Rightarrow> string \<Rightarrow> ('s, 'n) world
     \<Rightarrow> (error + booking list) \<times> ('s, 'n) world" where
  "mutationFn user serviceId providerId w =
     (case user of
        None \<Rightarrow> (Inl NotAuthenticated, w)
      | Some uid \<Rightarrow>
          insert_booking
            \<lparr>service_id = serviceId, customer_id = uid, booking.provider_id = providerId,
             status = ''pending'', booking_date = now w\<rparr> w)"

text \<open>
  \<^verbatim>\<open>createBooking.mutate\<close>: the mutation function, then \<^verbatim>\<open>onSuccess\<close> (two cache
  invalidations and the success toast) or \<^verbatim>\<open>onError\<close> (the failure toast). The
  source starts the mutation and returns; here the mutation runs to its end within the
  call, so that the outcome of the handler tells how it settled.
\<close>

definition mutate ::
  "string option \<Rightarrow> string \<Rightarrow> string \<Rightarrow> ('s, 'n) world \<Rightarrow> outcome \<times> ('s, 'n) world" where
  "mutate user serviceId providerId w =
     (case mutationFn user serviceId providerId w of
        (Inl err, w') \<Rightarrow> (BookingFailed err, w')
      | (Inr data, w') \<Rightarrow>
          (Booked data,
           logged (InvalidateQueries ''customer-bookings'')
             (logged (InvalidateQueries ''user-bookings'') w')))"

text \<open>
  \<^verbatim>\<open>handleBookService\<close>. The read of existing bookings keeps only \<^verbatim>\<open>data\<close> of the
  answer; \<^verbatim>\<open>existingBookings && existingBookings.length > 0\<close> is false when \<^verbatim>\<open>data\<close> is
  null. The store client resolves with an error value instead of throwing, so the
  \<^verbatim>\<open>catch\<close> block of the handler has no branch here.
\<close>

definition handleBookService ::
  "string option \<Rightarrow> string \<Rightarrow> string \<Rightarrow> ('s, 'n) world \<Rightarrow> outcome \<times> ('s, 'n) world" where
  "handleBookService user serviceId providerId w =
     (case user of
        None \<Rightarrow> (Rejected Unauthenticated, w)
      | Some uid \<Rightarrow>
          if uid = providerId then (Rejected SelfBooking, w)
          else
            (case select_bookings serviceId uid [''pending'', ''accepted''] w of
               (res, w1) \<Rightarrow>
                 if (case res of Inl err \<Rightarrow> False | Inr existingBookings \<Rightarrow> existingBookings \<noteq> [])
                 then (Rejected AlreadyBooked, w1)
                 else mutate user serviceId providerId w1))"

text \<open>
  An active booking is one whose status is pending or accepted. \<open>I1\<close> says that no pair
  of service and customer has more than one active booking.
\<close>

definition active :: "booking \<Rightarrow> bool" where
  "active b = (status b = ''pending'' \<or> status b = ''accepted'')"

definition active_for :: "string \<Rightarrow> string \<Rightarrow> booking list \<Rightarrow> booking list" where
  "active_for sid cid bs = filter (\<lambda>b. service_id b = sid \<and> customer_id b = cid \<and> active b) bs"

definition I1 :: "booking list \<Rightarrow> bool" where
  "I1 bs = list_all (\<lambda>b. length (active_for (service_id b) (customer_id b) bs) \<le> 1) bs"

text \<open>The bookings that the table of \<open>w'\<close> holds beyond the rows of \<open>w\<close>.\<close>

definition created :: "('s, 'n) world \<Rightarrow> ('s, 'n) world \<Rightarrow> booking list" where
  "created w w' = drop (length (bookings w)) (bookings w')"

text \<open>The row that the mutation function writes for user \<open>uid\<close> (lines 103 to 109).\<close>

definition new_booking :: "string \<Rightarrow> string \<Rightarrow> string \<Rightarrow> ('s, 'n) world \<Rightarrow> booking" where
  "new_booking uid serviceId providerId w =
     \<lparr>service_id = serviceId, customer_id = uid, booking.provider_id = providerId,
      status = ''pending'', booking_date = now w\<rparr>"

section \<open>Specification side\<close>

text \<open>The rows that the services read answers with when it does not fail.\<close>

definition fetched :: "view_state \<Rightarrow> ('s, 'n) world \<Rightarrow> 'n service_row list" where
  "fetched vs w =
     map (deliver (number_of w))
       (filter (\<lambda>s. list_all (satisfies (lower_text w) s) (services_query vs)) (services w))"





text \<open>A pattern character, and a pattern without any of the four.\<close>

definition special :: "char \<Rightarrow> bool" where
  "special c = (c = CHR ''%'' \<or> c = CHR ''_'' \<or> c = CHR ''*'' \<or> c = CHR 0x5C)"

definition plain :: "string \<Rightarrow> bool" where
  "plain pattern = list_all (\<lambda>c. \<not> special c) pattern"

text \<open>
  The lower-casing of the letters A to Z, by character code, which is what the usual
  locales do to a text of ASCII characters. \<open>folds_ascii w t\<close> says that the database
  of \<open>w\<close> lower-cases the text \<open>t\<close> in this way, and \<open>ascii_case w c\<close> that it does so for
  \<open>c\<close> and for the category of every stored service.
\<close>

definition ascii_lower :: "char \<Rightarrow> char" where
  "ascii_lower c =
     (let n = (of_char c :: nat) in if 65 \<le> n \<and> n \<le> 90 then char_of (n + 32) else c)"




text \<open>A fetched row joined with the first profile of \<open>ps\<close> that carries its provider id.\<close>

definition compose :: "profile list \<Rightarrow> 'n service_row \<Rightarrow> 'n listing_view" where
  "compose ps r = with_provider r (find (\<lambda>p. profile.id' p = service_row.provider_id r) ps)"

section \<open>Sample worlds\<close>

definition asha :: profile where
  "asha = \<lparr>profile.id' = ''P1'', full_name = ''Asha''\<rparr>"

definition row1 :: "int service_row" where
  "row1 = \<lparr>service_row.id' = ''1'', title = ''Deep clean'', description = None, price = 500,
     category = ''Cleaning'', city = ''Pune'', provider_id = ''P1''\<rparr>"

definition row2 :: "int service_row" where
  "row2 = \<lparr>service_row.id' = ''2'', title = ''Lawn care'', description = Some ''Weekly'',
     price = 300, category = ''Gardening'', city = ''Mumbai'', provider_id = ''P2''\<rparr>"

definition row3 :: "int service_row" where
  "row3 = \<lparr>service_row.id' = ''3'', title = ''Sofa clean'', description = None, price = 250,
     category = ''Cleaning'', city = ''Mumbai'', provider_id = ''P1''\<rparr>"

definition stored :: "int service_row \<Rightarrow> bool \<Rightarrow> int service" where
  "stored r a = service_row.extend r (service.fields a)"

text \<open>
  One provider with a profile (P1, two active services and one inactive) and one
  without (P2); no bookings. The prices are decoded as they are stored, and the database
  lower-cases the letters A to Z.
\<close>

definition w_list :: "(int, int) world" where
  "w_list = \<lparr>services = [stored row1 True, stored row2 True, stored row3 True,
                          stored (row1\<lparr>service_row.id' := ''4''\<rparr>) False],
     profiles = [asha], bookings = [], failing = {},
     now = ''2024-01-02T00:00:00.000Z'', trace = [],
     number_of = (\<lambda>x. x), lower_text = map ascii_lower\<rparr>"

text \<open>Customer C9 holds a pending booking of service 1, offered by P1.\<close>

definition w_one :: "(int, int) world" where
  "w_one = \<lparr>services = [stored row1 True], profiles = [asha],
     bookings = [\<lparr>service_id = ''1'', customer_id = ''C9'', booking.provider_id = ''P1'',
                  status = ''pending'', booking_date = ''2024-01-01T00:00:00.000Z''\<rparr>],
     failing = {}, now = ''2024-01-02T00:00:00.000Z'', trace = [],
     number_of = (\<lambda>x. x), lower_text = map ascii_lower\<rparr>"

text \<open>The view state with category \<open>c\<close> selected and no city.\<close>

definition by_category :: "string \<Rightarrow> view_state" where
  "by_category c = \<lparr>selectedCategory = Some c, selectedCity = None\<rparr>"


section \<open>Facts about the store\<close>

lemma bookings_logged: "bookings (logged e w) = bookings w"
  by (simp add: logged_def)

lemma failing_logged: "failing (logged e w) = failing w"
  by (simp add: logged_def)

lemma now_logged: "now (logged e w) = now w"
  by (simp add: logged_def)

lemma trace_logged: "trace (logged e w) = trace w @ [e]"
  by (simp add: logged_def)

lemma like_match_plain: "plain p \<Longrightarrow> like_match p t = (p = t)"
proof (induction p arbitrary: t)
  case Nil
  then show ?case by auto
next
  case (Cons a p)
  then show ?case by (cases t) (auto simp: plain_def special_def)
qed

lemma star2percent_plain: "plain p \<Longrightarrow> star2percent p = p"
  by (induction p) (auto simp: plain_def special_def star2percent_def)

subsection \<open>Lower-casing and the table of letters\<close>















text \<open>
  Whatever the locale, a pattern that is plain before and after lower-casing matches
  exactly the texts with the same lower-casing.
\<close>

lemma ilike_plain_lowered:
  assumes "plain p" and "plain (lower_of p)"
  shows "ilike lower_of p t = (lower_of p = lower_of t)"
  using assms by (simp add: ilike_def star2percent_plain like_match_plain)


lemma select_services_ok:
  "ReadServices \<notin> failing w \<Longrightarrow>
   select_services (services_query vs) w =
     (Inr (fetched vs w), logged (SelectServices (services_query vs)) w)"
  by (simp add: select_services_def fetched_def)

lemma select_services_fail:
  "ReadServices \<in> failing w \<Longrightarrow>
   select_services q w = (Inl (StoreError ReadServices), logged (SelectServices q) w)"
  by (simp add: select_services_def)

lemma select_bookings_ok:
  "ReadBookings \<notin> failing w \<Longrightarrow>
   select_bookings s c [''pending'', ''accepted''] w =
     (Inr (active_for s c (bookings w)), logged (SelectBookings s c [''pending'', ''accepted'']) w)"
  by (simp add: select_bookings_def active_for_def active_def)

lemma select_bookings_fail:
  "ReadBookings \<in> failing w \<Longrightarrow>
   select_bookings s c sts w = (Inl (StoreError ReadBookings), logged (SelectBookings s c sts) w)"
  by (simp add: select_bookings_def)

section \<open>Facts about the listing query\<close>

lemma truncate_with_provider: "service_row.truncate (with_provider r p) = r"
  by (simp add: with_provider_def service_row.defs listing_view.defs)

lemma provider_with_provider: "provider (with_provider r p) = p"
  by (simp add: with_provider_def service_row.defs listing_view.defs)

lemma provider_id_with_provider:
  "service_row.provider_id (with_provider r p) = service_row.provider_id r"
  by (simp add: with_provider_def service_row.defs listing_view.defs)

lemma queryFn_try_fail_services:
  "ReadServices \<in> failing w \<Longrightarrow>
   queryFn_try vs w = (Inl (StoreError ReadServices), logged (SelectServices (services_query vs)) w)"
  by (simp add: queryFn_try_def select_services_fail)

lemma queryFn_try_empty:
  "ReadServices \<notin> failing w \<Longrightarrow> fetched vs w = [] \<Longrightarrow>
   queryFn_try vs w = (Inr [], logged (SelectServices (services_query vs)) w)"
  by (simp add: queryFn_try_def select_services_ok)

lemma queryFn_try_fail_profiles:
  "ReadServices \<notin> failing w \<Longrightarrow> fetched vs w \<noteq> [] \<Longrightarrow> ReadProfiles \<in> failing w \<Longrightarrow>
   queryFn_try vs w =
     (Inl (StoreError ReadProfiles),
      logged (SelectProfilesIn (map service_row.provider_id (fetched vs w)))
        (logged (SelectServices (services_query vs)) w))"
  by (simp add: queryFn_try_def select_services_ok select_profiles_in_def failing_logged)

lemma queryFn_try_ok:
  "ReadServices \<notin> failing w \<Longrightarrow> fetched vs w \<noteq> [] \<Longrightarrow> ReadProfiles \<notin> failing w \<Longrightarrow>
   queryFn_try vs w =
     (Inr (map (compose (filter (\<lambda>p. profile.id' p \<in> set (map service_row.provider_id (fetched vs w)))
                           (profiles w)))
             (fetched vs w)),
      logged (SelectProfilesIn (map service_row.provider_id (fetched vs w)))
        (logged (SelectServices (services_query vs)) w))"
  by (simp add: queryFn_try_def select_services_ok select_profiles_in_def failing_logged
      compose_def logged_def)

lemma queryFn_never_Inl: "fst (queryFn vs w) \<noteq> Inl e"
  by (auto simp: queryFn_def split: prod.splits sum.splits)

lemma find_in_filter:
  "(\<And>p. P p \<Longrightarrow> Q p) \<Longrightarrow> find P (filter Q ps) = find P ps"
  by (induction ps) auto

lemma compose_fetched:
  assumes "service_row.provider_id r \<in> S"
  shows "compose (filter (\<lambda>p. profile.id' p \<in> S) ps) r = compose ps r"
proof -
  have "find (\<lambda>p. profile.id' p = service_row.provider_id r) (filter (\<lambda>p. profile.id' p \<in> S) ps)
      = find (\<lambda>p. profile.id' p = service_row.provider_id r) ps"
    by (rule find_in_filter) (simp add: assms)
  then show ?thesis by (simp add: compose_def)
qed

lemma compose_all_profiles:
  assumes "service_row.provider_id ` set rows \<subseteq> S"
  shows "map (compose (filter (\<lambda>p. profile.id' p \<in> S) ps)) rows = map (compose ps) rows"
proof (rule map_cong)
  fix r
  assume "r \<in> set rows"
  with assms have "service_row.provider_id r \<in> S" by auto
  then show "compose (filter (\<lambda>p. profile.id' p \<in> S) ps) r = compose ps r"
    by (rule compose_fetched)
qed simp

lemma truncate_compose: "service_row.truncate (compose ps r) = r"
  by (simp add: compose_def truncate_with_provider)

lemma provider_compose_None:
  "(provider (compose ps r) = None)
     = (\<not> (\<exists>p\<in>set ps. profile.id' p = service_row.provider_id (compose ps r)))"
  by (auto simp add: compose_def provider_with_provider provider_id_with_provider find_None_iff)

lemma provider_compose_Some:
  "provider (compose ps r) = Some p \<Longrightarrow>
   p \<in> set ps \<and> profile.id' p = service_row.provider_id (compose ps r)"
  by (auto simp add: compose_def provider_with_provider provider_id_with_provider find_Some_iff)

text \<open>When the \<^verbatim>\<open>try\<close> block returns, it returns the join of the fetched rows.\<close>

lemma queryFn_try_Inr:
  assumes "fst (queryFn_try vs w) = Inr views"
  shows "ReadServices \<notin> failing w \<and> views = map (compose (profiles w)) (fetched vs w)"
proof -
  have a: "ReadServices \<notin> failing w"
    using assms by (auto simp: queryFn_try_fail_services)
  show ?thesis
  proof (cases "fetched vs w = []")
    case True
    with a assms show ?thesis by (simp add: queryFn_try_empty)
  next
    case False
    with a assms have b: "ReadProfiles \<notin> failing w"
      by (auto simp: queryFn_try_fail_profiles)
    have "map (compose (filter (\<lambda>p. profile.id' p \<in> set (map service_row.provider_id (fetched vs w)))
                 (profiles w))) (fetched vs w) = map (compose (profiles w)) (fetched vs w)"
      by (rule compose_all_profiles) simp
    moreover have "fst (queryFn_try vs w) =
      Inr (map (compose (filter (\<lambda>p. profile.id' p \<in> set (map service_row.provider_id (fetched vs w)))
                 (profiles w))) (fetched vs w))"
      unfolding queryFn_try_ok [OF a False b] by (rule fst_conv)
    ultimately show ?thesis using a assms by simp
  qed
qed


section \<open>Facts about booking\<close>

lemma mutate_ok:
  "InsertBookings \<notin> failing w \<Longrightarrow>
   mutate (Some c) s p w =
     (Booked [new_booking c s p w],
      logged (InvalidateQueries ''customer-bookings'')
        (logged (InvalidateQueries ''user-bookings'')
          (logged (InsertBooking (new_booking c s p w))
            (w\<lparr>bookings := bookings w @ [new_booking c s p w]\<rparr>))))"
  by (simp add: mutate_def mutationFn_def insert_booking_def new_booking_def)

lemma mutate_fail:
  "InsertBookings \<in> failing w \<Longrightarrow>
   mutate (Some c) s p w =
     (BookingFailed (StoreError InsertBookings), logged (InsertBooking (new_booking c s p w)) w)"
  by (simp add: mutate_def mutationFn_def insert_booking_def new_booking_def)

text \<open>The handler leaves the table of bookings alone or appends one row to it.\<close>

lemma handleBookService_bookings:
  "bookings (snd (handleBookService user s p w)) = bookings w
   \<or> (\<exists>c. user = Some c \<and> c \<noteq> p
        \<and> (ReadBookings \<in> failing w \<or> active_for s c (bookings w) = [])
        \<and> bookings (snd (handleBookService user s p w)) = bookings w @ [new_booking c s p w])"
proof (cases user)
  case None
  then show ?thesis by (simp add: handleBookService_def)
next
  case (Some c)
  show ?thesis
  proof (cases "c = p")
    case True
    with Some show ?thesis by (simp add: handleBookService_def)
  next
    case False
    note cp = False
    show ?thesis
    proof (cases "InsertBookings \<in> failing w")
      case True
      with Some cp show ?thesis
        by (cases "ReadBookings \<in> failing w")
          (simp_all add: handleBookService_def select_bookings_ok select_bookings_fail
            mutate_fail failing_logged bookings_logged)
    next
      case False
      with Some cp show ?thesis
        by (cases "ReadBookings \<in> failing w")
          (simp_all add: handleBookService_def select_bookings_ok select_bookings_fail
            mutate_ok failing_logged bookings_logged now_logged,
           simp_all add: new_booking_def logged_def)
    qed
  qed
qed

lemma I1_append:
  assumes "I1 bs" and "active_for (service_id b) (customer_id b) bs = []"
  shows "I1 (bs @ [b])"
proof -
  have "length (active_for (service_id x) (customer_id x) (bs @ [b])) \<le> 1"
    if "x \<in> set (bs @ [b])" for x
  proof (cases "service_id x = service_id b \<and> customer_id x = customer_id b")
    case True
    with assms(2) show ?thesis by (simp add: active_for_def)
  next
    case False
    with that have "x \<in> set bs" by auto
    with assms(1) have "length (active_for (service_id x) (customer_id x) bs) \<le> 1"
      by (simp add: I1_def list_all_iff)
    with False show ?thesis by (auto simp: active_for_def)
  qed
  then show ?thesis by (simp add: I1_def list_all_iff)
qed

text \<open>
  As long as the read of existing bookings answers, the handler keeps \<open>I1\<close>: it inserts
  only for a pair without an active booking.
\<close>

lemma handleBookService_preserves_I1:
  assumes "ReadBookings \<notin> failing w" and "I1 (bookings w)"
  shows "I1 (bookings (snd (handleBookService user s p w)))"
proof -
  from handleBookService_bookings [of user s p w] show ?thesis
  proof
    assume "bookings (snd (handleBookService user s p w)) = bookings w"
    with assms(2) show ?thesis by simp
  next
    assume "\<exists>c. user = Some c \<and> c \<noteq> p
        \<and> (ReadBookings \<in> failing w \<or> active_for s c (bookings w) = [])
        \<and> bookings (snd (handleBookService user s p w)) = bookings w @ [new_booking c s p w]"
    then obtain c where e: "active_for s c (bookings w) = []"
      and b: "bookings (snd (handleBookService user s p w)) = bookings w @ [new_booking c s p w]"
      using assms(1) by auto
    from e have "active_for (service_id (new_booking c s p w)) (customer_id (new_booking c s p w))
        (bookings w) = []"
      by (simp add: new_booking_def)
    with assms(2) b show ?thesis by (simp add: I1_append)
  qed
qed

section \<open>Filter selection\<close>

text \<open>
  C9. Selecting category A and then category B gives the view state that selecting B
  in the unfiltered state gives; after a selection the category is the one selected and
  no city is selected.
\<close>

theorem handleCategoryClick_resets_city:
  fixes vs :: view_state
  shows "handleCategoryClick B (handleCategoryClick A vs) = handleCategoryClick B unfiltered
    \<and> selectedCategory (handleCategoryClick A vs) = Some A
    \<and> selectedCity (handleCategoryClick A vs) = None"
  by (simp add: handleCategoryClick_def unfiltered_def)

section \<open>The listing\<close>




text \<open>
  The scenario of the specification: category \<^verbatim>\<open>cleaning\<close> and city \<^verbatim>\<open>Pune\<close> list the one
  service of that category and city, joined with its provider.
\<close>

lemma queryFn_scenario:
  "fst (queryFn \<lparr>selectedCategory = Some ''cleaning'', selectedCity = Some ''Pune''\<rparr> w_list)
     = Inr [with_provider row1 (Some asha)]"
  by code_simp

text \<open>
  C6. Let the read of services answer, and let the read of profiles answer unless no
  row was fetched, in which case it is not made. Then the \<^verbatim>\<open>try\<close> block of the query
  returns a list of views, whatever profiles exist, and this list is the result of the
  query; the views stripped of their provider are the fetched rows, one view per row
  and in the order fetched; the provider of a view is undefined exactly when no profile
  carries the provider id of the row; and a provider that is defined is such a profile.
\<close>

theorem queryFn_one_view_per_service:
  assumes "fst (select_services (services_query vs) w) = Inr rows"
    and "rows = [] \<or> ReadProfiles \<notin> failing w"
  shows "\<exists>views. fst (queryFn_try vs w) = Inr views
    \<and> fst (queryFn vs w) = Inr views
    \<and> map service_row.truncate views = rows
    \<and> list_all (\<lambda>v. (provider v = None)
                      = (\<not> (\<exists>p\<in>set (profiles w). profile.id' p = service_row.provider_id v))) views
    \<and> list_all (\<lambda>v. case provider v of None \<Rightarrow> True
                     | Some p \<Rightarrow> p \<in> set (profiles w) \<and> profile.id' p = service_row.provider_id v)
        views"
proof -
  from assms(1) have a: "ReadServices \<notin> failing w"
    by (auto simp: select_services_fail)
  with assms(1) have r: "rows = fetched vs w"
    by (simp add: select_services_ok)
  define views where "views = map (compose (profiles w)) (fetched vs w)"
  have 0: "fst (queryFn_try vs w) = Inr views"
  proof (cases "fetched vs w = []")
    case True
    with a show ?thesis by (simp add: queryFn_try_empty views_def)
  next
    case False
    with assms(2) r have b: "ReadProfiles \<notin> failing w" by simp
    have "map (compose (filter (\<lambda>p. profile.id' p \<in> set (map service_row.provider_id (fetched vs w)))
                 (profiles w))) (fetched vs w) = map (compose (profiles w)) (fetched vs w)"
      by (rule compose_all_profiles) simp
    moreover have "fst (queryFn_try vs w) =
      Inr (map (compose (filter (\<lambda>p. profile.id' p \<in> set (map service_row.provider_id (fetched vs w)))
                 (profiles w))) (fetched vs w))"
      unfolding queryFn_try_ok [OF a False b] by (rule fst_conv)
    ultimately show ?thesis by (simp add: views_def)
  qed
  have 1: "fst (queryFn vs w) = Inr views"
    using 0 by (cases "queryFn_try vs w") (simp add: queryFn_def)
  have 2: "map service_row.truncate views = rows"
    by (simp add: r views_def truncate_compose o_def)
  have 3: "list_all (\<lambda>v. (provider v = None)
            = (\<not> (\<exists>p\<in>set (profiles w). profile.id' p = service_row.provider_id v))) views"
    unfolding views_def list_all_iff using provider_compose_None by auto
  have 4: "list_all (\<lambda>v. case provider v of None \<Rightarrow> True
            | Some p \<Rightarrow> p \<in> set (profiles w) \<and> profile.id' p = service_row.provider_id v) views"
    unfolding views_def list_all_iff using provider_compose_Some by (auto split: option.splits)
  from 0 1 2 3 4 show ?thesis by blast
qed

text \<open>
  Two runs of the theorem: with the one profile of the sample world, where the second
  row has no provider, and with no profile at all, where no row has one. Both return
  all three rows.
\<close>

theorem queryFn_one_view_per_service_witness:
  "fst (select_services (services_query unfiltered) w_list) = Inr [row1, row2, row3]
   \<and> ([row1, row2, row3] = [] \<or> ReadProfiles \<notin> failing w_list)
   \<and> (\<exists>views. fst (queryFn_try unfiltered w_list) = Inr views
        \<and> fst (queryFn unfiltered w_list) = Inr views
        \<and> views = [with_provider row1 (Some asha), with_provider row2 None,
                    with_provider row3 (Some asha)]
        \<and> map service_row.truncate views = [row1, row2, row3]
        \<and> list_all (\<lambda>v. (provider v = None)
              = (\<not> (\<exists>p\<in>set (profiles w_list). profile.id' p = service_row.provider_id v))) views)
   \<and> fst (select_services (services_query unfiltered) (w_list\<lparr>profiles := []\<rparr>))
       = Inr [row1, row2, row3]
   \<and> ([row1, row2, row3] = [] \<or> ReadProfiles \<notin> failing (w_list\<lparr>profiles := []\<rparr>))
   \<and> (\<exists>views. fst (queryFn_try unfiltered (w_list\<lparr>profiles := []\<rparr>)) = Inr views
        \<and> fst (queryFn unfiltered (w_list\<lparr>profiles := []\<rparr>)) = Inr views
        \<and> views = [with_provider row1 None, with_provider row2 None, with_provider row3 None]
        \<and> map service_row.truncate views = [row1, row2, row3])"
proof -
  have a: "fst (select_services (services_query unfiltered) w_list) = Inr [row1, row2, row3]"
    by code_simp
  have b: "[row1, row2, row3] = [] \<or> ReadProfiles \<notin> failing w_list"
    by (simp add: w_list_def)
  have c: "fst (queryFn_try unfiltered w_list) =
      Inr [with_provider row1 (Some asha), with_provider row2 None, with_provider row3 (Some asha)]"
    by code_simp
  from queryFn_one_view_per_service [OF a b] c
  have 1: "\<exists>views. fst (queryFn_try unfiltered w_list) = Inr views
        \<and> fst (queryFn unfiltered w_list) = Inr views
        \<and> views = [with_provider row1 (Some asha), with_provider row2 None,
                    with_provider row3 (Some asha)]
        \<and> map service_row.truncate views = [row1, row2, row3]
        \<and> list_all (\<lambda>v. (provider v = None)
              = (\<not> (\<exists>p\<in>set (profiles w_list). profile.id' p = service_row.provider_id v))) views"
    by auto
  have a': "fst (select_services (services_query unfiltered) (w_list\<lparr>profiles := []\<rparr>))
       = Inr [row1, row2, row3]"
    by code_simp
  have b': "[row1, row2, row3] = [] \<or> ReadProfiles \<notin> failing (w_list\<lparr>profiles := []\<rparr>)"
    by (simp add: w_list_def)
  have c': "fst (queryFn_try unfiltered (w_list\<lparr>profiles := []\<rparr>)) =
      Inr [with_provider row1 None, with_provider row2 None, with_provider row3 None]"
    by code_simp
  from queryFn_one_view_per_service [OF a' b'] c'
  have 2: "\<exists>views. fst (queryFn_try unfiltered (w_list\<lparr>profiles := []\<rparr>)) = Inr views
        \<and> fst (queryFn unfiltered (w_list\<lparr>profiles := []\<rparr>)) = Inr views
        \<and> views = [with_provider row1 None, with_provider row2 None, with_provider row3 None]
        \<and> map service_row.truncate views = [row1, row2, row3]"
    by auto
  from a b 1 a' b' 2 show ?thesis by (intro conjI)
qed

text \<open>
  C7, as the code has it. When the read of services answers with at least one row, the
  query makes one profile lookup, and the identifiers it passes are the provider ids
  of the fetched rows, one entry per row and in the order fetched.
\<close>

theorem queryFn_provider_lookup:
  assumes "ReadServices \<notin> failing w" and "fetched vs w \<noteq> []"
  shows "trace (snd (queryFn vs w)) =
           trace w @ [SelectServices (services_query vs),
                      SelectProfilesIn (map service_row.provider_id (fetched vs w))]"
proof (cases "ReadProfiles \<in> failing w")
  case True
  with assms show ?thesis by (simp add: queryFn_def queryFn_try_fail_profiles trace_logged)
next
  case False
  with assms show ?thesis by (simp add: queryFn_def queryFn_try_ok trace_logged)
qed

theorem queryFn_provider_lookup_witness:
  "ReadServices \<notin> failing w_list \<and> fetched (by_category ''cleaning'') w_list = [row1, row3]
   \<and> trace (snd (queryFn (by_category ''cleaning'') w_list)) =
       trace w_list @ [SelectServices (services_query (by_category ''cleaning'')),
                       SelectProfilesIn (map service_row.provider_id [row1, row3])]"
proof -
  have a: "ReadServices \<notin> failing w_list" by (simp add: w_list_def)
  have f: "fetched (by_category ''cleaning'') w_list = [row1, row3]" by code_simp
  then have n: "fetched (by_category ''cleaning'') w_list \<noteq> []" by simp
  from queryFn_provider_lookup [OF a n] a f show ?thesis by simp
qed

text \<open>
  Two fetched services of one provider put its identifier into the lookup twice: the
  identifiers passed are not a duplicate-free collection.
\<close>

theorem queryFn_provider_lookup_counterexample:
  "trace (snd (queryFn (by_category ''cleaning'') w_list)) =
     [SelectServices [EqIsActive True, IlikeCategory ''cleaning''],
      SelectProfilesIn [''P1'', ''P1'']]
   \<and> \<not> distinct [''P1'', ''P1'']"
  by code_simp

text \<open>
  C3, as the code has it. When the read of services fails, or the read of profiles
  fails after a read of services that answered with rows, the query returns the empty
  list as its result.
\<close>

theorem queryFn_swallows_fetch_errors:
  assumes "ReadServices \<in> failing w \<or> (ReadProfiles \<in> failing w \<and> fetched vs w \<noteq> [])"
  shows "fst (queryFn vs w) = Inr []"
proof (cases "ReadServices \<in> failing w")
  case True
  then show ?thesis by (simp add: queryFn_def queryFn_try_fail_services)
next
  case False
  with assms show ?thesis by (simp add: queryFn_def queryFn_try_fail_profiles)
qed

theorem queryFn_swallows_fetch_errors_witness:
  "(ReadServices \<in> failing (w_list\<lparr>failing := {ReadProfiles}\<rparr>)
     \<or> (ReadProfiles \<in> failing (w_list\<lparr>failing := {ReadProfiles}\<rparr>)
         \<and> fetched unfiltered (w_list\<lparr>failing := {ReadProfiles}\<rparr>) \<noteq> []))
   \<and> fst (queryFn unfiltered (w_list\<lparr>failing := {ReadProfiles}\<rparr>)) = Inr []"
proof -
  have f: "fetched unfiltered (w_list\<lparr>failing := {ReadProfiles}\<rparr>) = [row1, row2, row3]"
    by code_simp
  have h: "ReadServices \<in> failing (w_list\<lparr>failing := {ReadProfiles}\<rparr>)
     \<or> (ReadProfiles \<in> failing (w_list\<lparr>failing := {ReadProfiles}\<rparr>)
         \<and> fetched unfiltered (w_list\<lparr>failing := {ReadProfiles}\<rparr>) \<noteq> [])"
    by (simp add: f)
  from h queryFn_swallows_fetch_errors [OF h] show ?thesis by (rule conjI)
qed

text \<open>
  With the read of services failing, the query does not surface an error: it returns the
  empty list, which is also its result on a table without services. The same holds with
  the read of profiles failing.
\<close>

theorem queryFn_swallows_fetch_errors_counterexample:
  "ReadServices \<in> failing (w_list\<lparr>failing := {ReadServices}\<rparr>)
   \<and> queryFn unfiltered (w_list\<lparr>failing := {ReadServices}\<rparr>)
       = (Inr [], logged (SelectServices [EqIsActive True]) (w_list\<lparr>failing := {ReadServices}\<rparr>))
   \<and> fst (queryFn unfiltered (w_list\<lparr>services := []\<rparr>)) = Inr []
   \<and> fst (queryFn unfiltered (w_list\<lparr>failing := {ReadProfiles}\<rparr>)) = Inr []"
proof -
  have 1: "ReadServices \<in> failing (w_list\<lparr>failing := {ReadServices}\<rparr>)" by simp
  have 2: "queryFn unfiltered (w_list\<lparr>failing := {ReadServices}\<rparr>)
       = (Inr [], logged (SelectServices [EqIsActive True]) (w_list\<lparr>failing := {ReadServices}\<rparr>))"
    by (simp add: queryFn_def queryFn_try_fail_services services_query_def unfiltered_def)
  have 3: "fst (queryFn unfiltered (w_list\<lparr>services := []\<rparr>)) = Inr []" by code_simp
  have 4: "fst (queryFn unfiltered (w_list\<lparr>failing := {ReadProfiles}\<rparr>)) = Inr []" by code_simp
  from 1 2 3 4 show ?thesis by (intro conjI)
qed

section \<open>Booking guards\<close>

text \<open>
  C8. With nobody signed in, the handler rejects the request as unauthenticated and
  leaves the world as it was: no table is read or written and no call is traced. The
  mutation function refuses in the same way.
\<close>

theorem handleBookService_unauthenticated:
  "handleBookService None serviceId providerId w = (Rejected Unauthenticated, w)
    \<and> mutationFn None serviceId providerId w = (Inl NotAuthenticated, w)"
  by (simp add: handleBookService_def mutationFn_def)

text \<open>
  C2. A signed-in user who asks for a service of their own is rejected for self-booking
  and the world stays as it was. Hence, whoever calls the handler, the table of bookings
  keeps its rows, and every row added has a customer other than its provider.
\<close>

theorem handleBookService_self_booking:
  "handleBookService (Some providerId) serviceId providerId w = (Rejected SelfBooking, w)
    \<and> take (length (bookings w)) (bookings (snd (handleBookService user s p w))) = bookings w
    \<and> list_all (\<lambda>b. customer_id b \<noteq> booking.provider_id b)
        (created w (snd (handleBookService user s p w)))"
proof -
  have 1: "handleBookService (Some providerId) serviceId providerId w = (Rejected SelfBooking, w)"
    by (simp add: handleBookService_def)
  have 2: "take (length (bookings w)) (bookings (snd (handleBookService user s p w))) = bookings w
    \<and> list_all (\<lambda>b. customer_id b \<noteq> booking.provider_id b)
        (created w (snd (handleBookService user s p w)))"
    using handleBookService_bookings [of user s p w]
    by (auto simp: created_def new_booking_def)
  from 1 2 show ?thesis by simp
qed

theorem handleBookService_self_booking_witness:
  "handleBookService (Some ''P1'') ''1'' ''P1'' w_list = (Rejected SelfBooking, w_list)
    \<and> take (length (bookings w_list)) (bookings (snd (handleBookService (Some ''C9'') ''1'' ''P1'' w_list)))
        = bookings w_list
    \<and> list_all (\<lambda>b. customer_id b \<noteq> booking.provider_id b)
        (created w_list (snd (handleBookService (Some ''C9'') ''1'' ''P1'' w_list)))
    \<and> created w_list (snd (handleBookService (Some ''C9'') ''1'' ''P1'' w_list))
        = [new_booking ''C9'' ''1'' ''P1'' w_list]"
proof -
  have c: "created w_list (snd (handleBookService (Some ''C9'') ''1'' ''P1'' w_list))
        = [new_booking ''C9'' ''1'' ''P1'' w_list]"
    by code_simp
  from handleBookService_self_booking [of "''P1''" "''1''" w_list "Some ''C9''" "''1''" "''P1''"] c
  show ?thesis by simp
qed

text \<open>
  C1, as the code has it. A user other than the provider, who holds an active booking
  of the service, is rejected as already booked when the read of existing bookings
  answers; the table of bookings is unchanged, so the invariant \<open>I1\<close> is kept.
\<close>

theorem handleBookService_already_booked:
  assumes "ReadBookings \<notin> failing w" and "c \<noteq> providerId"
    and "active_for s c (bookings w) \<noteq> []"
  shows "fst (handleBookService (Some c) s providerId w) = Rejected AlreadyBooked
    \<and> bookings (snd (handleBookService (Some c) s providerId w)) = bookings w
    \<and> created w (snd (handleBookService (Some c) s providerId w)) = []
    \<and> (I1 (bookings w) \<longrightarrow> I1 (bookings (snd (handleBookService (Some c) s providerId w))))"
  using assms
  by (simp add: handleBookService_def select_bookings_ok bookings_logged created_def)

theorem handleBookService_already_booked_witness:
  "ReadBookings \<notin> failing w_one \<and> ''C9'' \<noteq> ''P1''
    \<and> active_for ''1'' ''C9'' (bookings w_one) \<noteq> []
    \<and> I1 (bookings w_one)
    \<and> fst (handleBookService (Some ''C9'') ''1'' ''P1'' w_one) = Rejected AlreadyBooked
    \<and> bookings (snd (handleBookService (Some ''C9'') ''1'' ''P1'' w_one)) = bookings w_one
    \<and> created w_one (snd (handleBookService (Some ''C9'') ''1'' ''P1'' w_one)) = []
    \<and> I1 (bookings (snd (handleBookService (Some ''C9'') ''1'' ''P1'' w_one)))"
proof -
  have a: "ReadBookings \<notin> failing w_one" by (simp add: w_one_def)
  have b: "''C9'' \<noteq> ''P1''" by simp
  have c: "active_for ''1'' ''C9'' (bookings w_one) \<noteq> []" by code_simp
  have d: "I1 (bookings w_one)" by code_simp
  from handleBookService_already_booked [OF a b c] a b c d show ?thesis by simp
qed

text \<open>
  The claim as the specification words it fails in two ways. A provider who holds an
  active booking of the own service is rejected for self-booking, not as already
  booked. And when the read of existing bookings fails, the customer who holds an
  active booking gets a second one, which breaks \<open>I1\<close>.
\<close>

theorem handleBookService_already_booked_counterexample:
  "active_for ''1'' ''C9'' (bookings w_one) \<noteq> []
    \<and> I1 (bookings w_one)
    \<and> handleBookService (Some ''C9'') ''1'' ''C9'' w_one = (Rejected SelfBooking, w_one)
    \<and> fst (handleBookService (Some ''C9'') ''1'' ''P1'' (w_one\<lparr>failing := {ReadBookings}\<rparr>))
        = Booked [new_booking ''C9'' ''1'' ''P1'' w_one]
    \<and> created w_one (snd (handleBookService (Some ''C9'') ''1'' ''P1'' (w_one\<lparr>failing := {ReadBookings}\<rparr>)))
        = [new_booking ''C9'' ''1'' ''P1'' w_one]
    \<and> \<not> I1 (bookings (snd (handleBookService (Some ''C9'') ''1'' ''P1''
                              (w_one\<lparr>failing := {ReadBookings}\<rparr>))))"
proof -
  let ?w = "w_one\<lparr>failing := {ReadBookings}\<rparr>"
  have 1: "active_for ''1'' ''C9'' (bookings w_one) \<noteq> []" by code_simp
  have 2: "I1 (bookings w_one)" by code_simp
  have 3: "handleBookService (Some ''C9'') ''1'' ''C9'' w_one = (Rejected SelfBooking, w_one)"
    by (simp add: handleBookService_def)
  have 4: "fst (handleBookService (Some ''C9'') ''1'' ''P1'' ?w)
        = Booked [new_booking ''C9'' ''1'' ''P1'' w_one]"
    by code_simp
  have 5: "created w_one (snd (handleBookService (Some ''C9'') ''1'' ''P1'' ?w))
        = [new_booking ''C9'' ''1'' ''P1'' w_one]"
    by code_simp
  have 6: "\<not> I1 (bookings (snd (handleBookService (Some ''C9'') ''1'' ''P1'' ?w)))"
    by code_simp
  from 1 2 3 4 5 6 show ?thesis by (intro conjI)
qed

text \<open>
  C10. When the read of existing bookings fails and the insertion does not, a signed-in
  user other than the provider gets a new booking whatever bookings exist: the handler
  reports success, appends the row, and the pair of service and customer has one more
  active booking than before.
\<close>

theorem handleBookService_read_failure_inserts:
  assumes "ReadBookings \<in> failing w" and "InsertBookings \<notin> failing w" and "c \<noteq> providerId"
  shows "fst (handleBookService (Some c) s providerId w) = Booked [new_booking c s providerId w]
    \<and> bookings (snd (handleBookService (Some c) s providerId w))
        = bookings w @ [new_booking c s providerId w]
    \<and> length (active_for s c (bookings (snd (handleBookService (Some c) s providerId w))))
        = Suc (length (active_for s c (bookings w)))"
  using assms
  by (simp add: handleBookService_def select_bookings_fail mutate_ok bookings_logged
      failing_logged now_logged) (simp add: new_booking_def active_for_def active_def logged_def)

theorem handleBookService_read_failure_inserts_witness:
  "ReadBookings \<in> failing (w_one\<lparr>failing := {ReadBookings}\<rparr>)
    \<and> InsertBookings \<notin> failing (w_one\<lparr>failing := {ReadBookings}\<rparr>)
    \<and> ''C9'' \<noteq> ''P1''
    \<and> length (active_for ''1'' ''C9'' (bookings (w_one\<lparr>failing := {ReadBookings}\<rparr>))) = 1
    \<and> fst (handleBookService (Some ''C9'') ''1'' ''P1'' (w_one\<lparr>failing := {ReadBookings}\<rparr>))
        = Booked [new_booking ''C9'' ''1'' ''P1'' (w_one\<lparr>failing := {ReadBookings}\<rparr>)]
    \<and> bookings (snd (handleBookService (Some ''C9'') ''1'' ''P1'' (w_one\<lparr>failing := {ReadBookings}\<rparr>)))
        = bookings (w_one\<lparr>failing := {ReadBookings}\<rparr>)
          @ [new_booking ''C9'' ''1'' ''P1'' (w_one\<lparr>failing := {ReadBookings}\<rparr>)]
    \<and> length (active_for ''1'' ''C9''
         (bookings (snd (handleBookService (Some ''C9'') ''1'' ''P1''
                           (w_one\<lparr>failing := {ReadBookings}\<rparr>))))) = 2"
proof -
  let ?w = "w_one\<lparr>failing := {ReadBookings}\<rparr>"
  have a: "ReadBookings \<in> failing ?w" by simp
  have b: "InsertBookings \<notin> failing ?w" by simp
  have c: "''C9'' \<noteq> ''P1''" by simp
  have d: "length (active_for ''1'' ''C9'' (bookings ?w)) = 1" by code_simp
  note t = handleBookService_read_failure_inserts [OF a b c, of "''1''"]
  from t have t1: "fst (handleBookService (Some ''C9'') ''1'' ''P1'' ?w)
        = Booked [new_booking ''C9'' ''1'' ''P1'' ?w]"
    by (rule conjunct1)
  from t have t2: "bookings (snd (handleBookService (Some ''C9'') ''1'' ''P1'' ?w))
        = bookings ?w @ [new_booking ''C9'' ''1'' ''P1'' ?w]"
    by (rule conjunct1 [OF conjunct2])
  from t have t3: "length (active_for ''1'' ''C9''
         (bookings (snd (handleBookService (Some ''C9'') ''1'' ''P1'' ?w))))
        = Suc (length (active_for ''1'' ''C9'' (bookings ?w)))"
    by (rule conjunct2 [OF conjunct2])
  from t3 d have e: "length (active_for ''1'' ''C9''
         (bookings (snd (handleBookService (Some ''C9'') ''1'' ''P1'' ?w)))) = 2"
    by linarith
  from a b c d t1 t2 e show ?thesis by (intro conjI)
qed

section \<open>Creating a booking\<close>

text \<open>
  C4, as the code has it. Take a signed-in user other than the provider, without an
  active booking of the service. When the insertion does not fail, the user gets a
  booking: the row appended has status pending and the current time as its date, the
  mutation function returns it, and the handler reports success with it. When the
  insertion fails, the table of bookings stays as it was, the mutation function throws
  the error of the store and returns no booking, and the handler reports the failure.
\<close>

theorem handleBookService_inserts_pending:
  assumes "c \<noteq> providerId" and "active_for s c (bookings w) = []"
  shows "fst (handleBookService (Some c) s providerId w)
        = (if InsertBookings \<in> failing w then BookingFailed (StoreError InsertBookings)
           else Booked [new_booking c s providerId w])
    \<and> bookings (snd (handleBookService (Some c) s providerId w))
        = (if InsertBookings \<in> failing w then bookings w
           else bookings w @ [new_booking c s providerId w])
    \<and> fst (mutationFn (Some c) s providerId w)
        = (if InsertBookings \<in> failing w then Inl (StoreError InsertBookings)
           else Inr [new_booking c s providerId w])
    \<and> status (new_booking c s providerId w) = ''pending''
    \<and> booking_date (new_booking c s providerId w) = now w"
proof -
  let ?sel = "SelectBookings s c [''pending'', ''accepted'']"
  have h: "handleBookService (Some c) s providerId w = mutate (Some c) s providerId (logged ?sel w)"
    using assms
    by (cases "ReadBookings \<in> failing w")
      (simp_all add: handleBookService_def select_bookings_ok select_bookings_fail)
  have m: "fst (mutationFn (Some c) s providerId w)
        = (if InsertBookings \<in> failing w then Inl (StoreError InsertBookings)
           else Inr [new_booking c s providerId w])"
    by (simp add: mutationFn_def insert_booking_def new_booking_def)
  have n: "new_booking c s providerId (logged ?sel w) = new_booking c s providerId w"
    by (simp add: new_booking_def now_logged)
  have f: "status (new_booking c s providerId w) = ''pending''
    \<and> booking_date (new_booking c s providerId w) = now w"
    by (simp add: new_booking_def)
  show ?thesis
  proof (cases "InsertBookings \<in> failing w")
    case True
    then have "InsertBookings \<in> failing (logged ?sel w)" by (simp add: failing_logged)
    from mutate_fail [OF this] True h m f show ?thesis
      by (simp add: bookings_logged)
  next
    case False
    then have "InsertBookings \<notin> failing (logged ?sel w)" by (simp add: failing_logged)
    from mutate_ok [OF this] False h m f n show ?thesis
      by (simp add: bookings_logged)
  qed
qed

text \<open>Two runs of the theorem: one with the store accepting the row, one with it refusing.\<close>

theorem handleBookService_inserts_pending_witness:
  "''C9'' \<noteq> ''P1''
    \<and> active_for ''1'' ''C9'' (bookings w_list) = []
    \<and> InsertBookings \<notin> failing w_list
    \<and> fst (handleBookService (Some ''C9'') ''1'' ''P1'' w_list)
        = Booked [new_booking ''C9'' ''1'' ''P1'' w_list]
    \<and> bookings (snd (handleBookService (Some ''C9'') ''1'' ''P1'' w_list))
        = bookings w_list @ [new_booking ''C9'' ''1'' ''P1'' w_list]
    \<and> fst (mutationFn (Some ''C9'') ''1'' ''P1'' w_list) = Inr [new_booking ''C9'' ''1'' ''P1'' w_list]
    \<and> status (new_booking ''C9'' ''1'' ''P1'' w_list) = ''pending''
    \<and> booking_date (new_booking ''C9'' ''1'' ''P1'' w_list) = now w_list
    \<and> active_for ''1'' ''C9'' (bookings (w_list\<lparr>failing := {InsertBookings}\<rparr>)) = []
    \<and> InsertBookings \<in> failing (w_list\<lparr>failing := {InsertBookings}\<rparr>)
    \<and> fst (handleBookService (Some ''C9'') ''1'' ''P1'' (w_list\<lparr>failing := {InsertBookings}\<rparr>))
        = BookingFailed (StoreError InsertBookings)
    \<and> bookings (snd (handleBookService (Some ''C9'') ''1'' ''P1''
                       (w_list\<lparr>failing := {InsertBookings}\<rparr>)))
        = bookings (w_list\<lparr>failing := {InsertBookings}\<rparr>)
    \<and> fst (mutationFn (Some ''C9'') ''1'' ''P1'' (w_list\<lparr>failing := {InsertBookings}\<rparr>))
        = Inl (StoreError InsertBookings)"
proof -
  let ?v = "w_list\<lparr>failing := {InsertBookings}\<rparr>"
  have b: "''C9'' \<noteq> ''P1''" by simp
  have c: "active_for ''1'' ''C9'' (bookings w_list) = []" by code_simp
  have a: "InsertBookings \<notin> failing w_list" by (simp add: w_list_def)
  have c': "active_for ''1'' ''C9'' (bookings ?v) = []" by code_simp
  have a': "InsertBookings \<in> failing ?v" by simp
  from handleBookService_inserts_pending [OF b c] a
  have 1: "fst (handleBookService (Some ''C9'') ''1'' ''P1'' w_list)
        = Booked [new_booking ''C9'' ''1'' ''P1'' w_list]
    \<and> bookings (snd (handleBookService (Some ''C9'') ''1'' ''P1'' w_list))
        = bookings w_list @ [new_booking ''C9'' ''1'' ''P1'' w_list]
    \<and> fst (mutationFn (Some ''C9'') ''1'' ''P1'' w_list) = Inr [new_booking ''C9'' ''1'' ''P1'' w_list]
    \<and> status (new_booking ''C9'' ''1'' ''P1'' w_list) = ''pending''
    \<and> booking_date (new_booking ''C9'' ''1'' ''P1'' w_list) = now w_list"
    by (simp only: if_False)
  from handleBookService_inserts_pending [OF b c'] a'
  have 2: "fst (handleBookService (Some ''C9'') ''1'' ''P1'' ?v)
        = BookingFailed (StoreError InsertBookings)
    \<and> bookings (snd (handleBookService (Some ''C9'') ''1'' ''P1'' ?v)) = bookings ?v
    \<and> fst (mutationFn (Some ''C9'') ''1'' ''P1'' ?v) = Inl (StoreError InsertBookings)"
    by (simp only: if_True)
  from b c a 1 c' a' 2 show ?thesis by blast
qed

text \<open>
  With the insertion failing, the guards let the request through and yet no booking is
  inserted or returned: the mutation function throws and the handler reports failure.
\<close>

theorem handleBookService_inserts_pending_counterexample:
  "active_for ''1'' ''C9'' (bookings (w_list\<lparr>failing := {InsertBookings}\<rparr>)) = []
    \<and> fst (handleBookService (Some ''C9'') ''1'' ''P1'' (w_list\<lparr>failing := {InsertBookings}\<rparr>))
        = BookingFailed (StoreError InsertBookings)
    \<and> bookings (snd (handleBookService (Some ''C9'') ''1'' ''P1''
                       (w_list\<lparr>failing := {InsertBookings}\<rparr>))) = []
    \<and> fst (mutationFn (Some ''C9'') ''1'' ''P1'' (w_list\<lparr>failing := {InsertBookings}\<rparr>))
        = Inl (StoreError InsertBookings)"
  by code_simp

text \<open>
  The scenario of the specification: a first request is booked as pending, and the same
  request made again is rejected as already booked.
\<close>

lemma handleBookService_scenario:
  "fst (handleBookService (Some ''C9'') ''1'' ''P1'' w_list)
     = Booked [new_booking ''C9'' ''1'' ''P1'' w_list]
   \<and> fst (handleBookService (Some ''C9'') ''1'' ''P1''
            (snd (handleBookService (Some ''C9'') ''1'' ''P1'' w_list)))
     = Rejected AlreadyBooked"
  by code_simp

end
